theory Spec2Isabelle
  imports Main "HOL-Library.Char_ord" "HOL-Library.List_Lexorder" "HOL-Library.Product_Lexorder"
    "HOL-Library.Multiset"
begin

section \<open>The notification document (models/Notification, the mongoose schema)\<close>

text \<open>
  A \<open>Date\<close> is its time value, the milliseconds since the epoch, an integer. Strings are
  kept as strings, as the schema stores them: \<open>type\<close>, \<open>priority\<close>, \<open>recipientType\<close> and
  \<open>status\<close> are \<open>String\<close> paths whose \<open>enum\<close> is a validator run when a document is
  created, not a type of their own, and the store compares and sorts them as strings.
  A nullable path is an \<open>option\<close>, with \<open>None\<close> for \<open>null\<close>. The path \<open>_id\<close> is \<open>nid\<close>
  and the path \<open>type\<close> is \<open>ntype\<close>.

  The paths \<open>metadata\<close>, \<open>relatedEntities\<close>, \<open>actionUrl\<close>, \<open>actionLabel\<close>, \<open>snsMessageId\<close>,
  \<open>sqsMessageId\<close> and \<open>createdBy\<close> are neither read nor written by any method or static of
  the schema and are left out of the record.
\<close>

type_synonym date = int

record channel =
  sent :: bool
  sentAt :: "date option"
  messageId :: "string option"

record inAppChannel =
  displayed :: bool
  displayedAt :: "date option"

record channels =
  push :: channel
  email :: channel
  sms :: channel
  inApp :: inAppChannel

record notification =
  nid :: nat
  ntype :: string
  title :: string
  message :: string
  priority :: string
  recipientId :: string
  recipientType :: string
  status :: string
  read :: bool
  readAt :: "date option"
  channels :: channels
  actionRequired :: bool
  actionCompleted :: bool
  actionCompletedAt :: "date option"
  expiresAt :: "date option"
  createdAt :: date
  updatedAt :: date

text \<open>
  The collection is the list of its documents, in insertion order. The index on
  \<open>expiresAt\<close> with \<open>expireAfterSeconds: 0\<close> lets the store delete a document at some
  moment after its \<open>expiresAt\<close> has passed; that deletion is no operation of the code, and
  a query below sees the documents that are in the collection when it runs.
\<close>

type_synonym store = "notification list"

section \<open>What the statics use of the document store\<close>

text \<open>
  \<open>find\<close> (here \<open>find_docs\<close>), \<open>countDocuments\<close> and \<open>deleteMany\<close> take the query as a
  predicate on documents.
  \<open>sort\<close> with direction \<open>-1\<close> on every key orders by the tuple of the keys, descending;
  strings compare byte by byte (no collation is configured), which is the lexicographic
  order of \<open>char list\<close>. The store promises no order among documents with equal keys;
  \<open>sortDesc\<close> is one such order, the reverse of the stable ascending sort.
\<close>

definition find_docs :: "(notification \<Rightarrow> bool) \<Rightarrow> store \<Rightarrow> notification list" where
  "find_docs q s = filter q s"

definition countDocuments :: "(notification \<Rightarrow> bool) \<Rightarrow> store \<Rightarrow> nat" where
  "countDocuments q s = length (filter q s)"

definition sortDesc :: "(notification \<Rightarrow> 'k::linorder) \<Rightarrow> notification list \<Rightarrow> notification list" where
  "sortDesc key xs = rev (sort_key key xs)"

text \<open>
  \<open>deleteMany\<close> returns the collection without the matching documents, and
  \<open>deletedCount\<close>.
\<close>

definition deleteMany :: "(notification \<Rightarrow> bool) \<Rightarrow> store \<Rightarrow> store \<times> nat" where
  "deleteMany q s = (filter (\<lambda>n. \<not> q n) s, length (filter q s))"

text \<open>
  \<open>updateMany\<close> applies the update to every matching document; \<open>modifiedCount\<close> counts
  the matching documents that the update changed.
\<close>

definition updateMany ::
  "(notification \<Rightarrow> bool) \<Rightarrow> (notification \<Rightarrow> notification) \<Rightarrow> store \<Rightarrow> store \<times> nat" where
  "updateMany q upd s =
     (map (\<lambda>n. if q n then upd n else n) s, length (filter (\<lambda>n. q n \<and> upd n \<noteq> n) s))"

section \<open>The statics of the schema\<close>

text \<open>
  The query of \<open>findUnread\<close> and of \<open>getUnreadCount\<close>:
  \<^verbatim>\<open>{ recipientId, read: false, $or: [{ expiresAt: null }, { expiresAt: { $gt: new Date() } }] }\<close>
  with \<open>now\<close> the value of \<open>new Date()\<close>.
\<close>

definition unreadQuery :: "date \<Rightarrow> string \<Rightarrow> notification \<Rightarrow> bool" where
  "unreadQuery now rid n \<longleftrightarrow>
     recipientId n = rid \<and> read n = False \<and>
     (expiresAt n = None \<or> (case expiresAt n of None \<Rightarrow> False | Some e \<Rightarrow> now < e))"

text \<open>\<^verbatim>\<open>this.find({...}).sort({ priority: -1, createdAt: -1 })\<close>\<close>

definition findUnread :: "date \<Rightarrow> string \<Rightarrow> store \<Rightarrow> notification list" where
  "findUnread now rid s = sortDesc (\<lambda>n. (priority n, createdAt n)) (find_docs (unreadQuery now rid) s)"

definition getUnreadCount :: "date \<Rightarrow> string \<Rightarrow> store \<Rightarrow> nat" where
  "getUnreadCount now rid s = countDocuments (unreadQuery now rid) s"


text \<open>
  \<open>markAllAsRead\<close>: one \<open>updateMany\<close> on \<open>{ recipientId, read: false }\<close>. The schema has
  \<open>timestamps: true\<close>, so the update also sets \<open>updatedAt\<close>.
\<close>

definition markAllAsRead :: "date \<Rightarrow> string \<Rightarrow> store \<Rightarrow> store \<times> nat" where
  "markAllAsRead now rid s =
     updateMany (\<lambda>n. recipientId n = rid \<and> read n = False)
       (\<lambda>n. n\<lparr>read := True, readAt := Some now, status := ''read'', updatedAt := now\<rparr>) s"

text \<open>
  \<open>deleteOld\<close> computes its cutoff with a \<open>Date\<close>:
  \<^verbatim>\<open>const cutoffDate = new Date(); cutoffDate.setDate(cutoffDate.getDate() - daysOld);\<close>
  The definitions below are the abstract operations of the language standard on time
  values that \<open>getDate\<close> and \<open>setDate\<close> are made of, under their names. The time zone of
  the host is a parameter: the offset of local time in force at a UTC time value, and the
  offset in force at a local one (the two differ around a clock change). An invalid
  \<open>Date\<close> is \<open>None\<close>. The standard computes in floating point; up to the bound of
  \<open>TimeClip\<close> every integer is exact, and a value that rounding touches is beyond that
  bound before and after. \<open>daysOld\<close> is a whole number of days, 90 when omitted (\<open>None\<close>).
\<close>

record timeZone =
  offsetAtUTC :: "date \<Rightarrow> int"
  offsetAtLocal :: "date \<Rightarrow> int"

definition msPerDay :: int where
  "msPerDay = 86400000"

definition Day :: "date \<Rightarrow> int" where
  "Day t = t div msPerDay"

definition TimeWithinDay :: "date \<Rightarrow> int" where
  "TimeWithinDay t = t mod msPerDay"

definition DaysInYear :: "int \<Rightarrow> int" where
  "DaysInYear y =
     (if y mod 4 \<noteq> 0 then 365
      else if y mod 100 \<noteq> 0 then 366
      else if y mod 400 \<noteq> 0 then 365
      else 366)"

definition DayFromYear :: "int \<Rightarrow> int" where
  "DayFromYear y = 365 * (y - 1970) + (y - 1969) div 4 - (y - 1901) div 100 + (y - 1601) div 400"

text \<open>
  \<open>YearFromTime\<close> is the largest year that starts at or before the time value; it lies
  between the two bounds that 365 and 366 days a year give, which the search runs through.
\<close>

definition YearFromTime :: "date \<Rightarrow> int" where
  "YearFromTime t =
     (let lo = 1970 + min (Day t div 365) (Day t div 366) - 1;
          hi = 1970 + max (Day t div 365) (Day t div 366) + 1
      in foldl (\<lambda>y c. if DayFromYear c \<le> Day t then c else y) lo [lo..hi])"

definition leapDays :: "int \<Rightarrow> int" where
  "leapDays y = (if DaysInYear y = 365 then 0 else 1)"

definition InLeapYear :: "date \<Rightarrow> int" where
  "InLeapYear t = leapDays (YearFromTime t)"

definition DayWithinYear :: "date \<Rightarrow> int" where
  "DayWithinYear t = Day t - DayFromYear (YearFromTime t)"

text \<open>The day within the year on which month \<open>m\<close> (0 to 11) starts.\<close>

definition monthStart :: "int \<Rightarrow> int \<Rightarrow> int" where
  "monthStart m leap =
     (if m = 0 then 0 else if m = 1 then 31 else if m = 2 then 59 + leap
      else if m = 3 then 90 + leap else if m = 4 then 120 + leap
      else if m = 5 then 151 + leap else if m = 6 then 181 + leap
      else if m = 7 then 212 + leap else if m = 8 then 243 + leap
      else if m = 9 then 273 + leap else if m = 10 then 304 + leap
      else 334 + leap)"

definition MonthFromTime :: "date \<Rightarrow> int" where
  "MonthFromTime t =
     (let d = DayWithinYear t; leap = InLeapYear t
      in if d < 31 then 0 else if d < 59 + leap then 1 else if d < 90 + leap then 2
         else if d < 120 + leap then 3 else if d < 151 + leap then 4
         else if d < 181 + leap then 5 else if d < 212 + leap then 6
         else if d < 243 + leap then 7 else if d < 273 + leap then 8
         else if d < 304 + leap then 9 else if d < 334 + leap then 10 else 11)"

definition DateFromTime :: "date \<Rightarrow> int" where
  "DateFromTime t = DayWithinYear t - monthStart (MonthFromTime t) (InLeapYear t) + 1"

text \<open>
  \<open>MakeDay\<close>: the day number of the first day of the month, plus the date, minus one; the
  date may lie outside the month.
\<close>

definition MakeDay :: "int \<Rightarrow> int \<Rightarrow> int \<Rightarrow> int" where
  "MakeDay year month dt =
     (let ym = year + month div 12; mn = month mod 12
      in DayFromYear ym + monthStart mn (leapDays ym) + dt - 1)"

definition MakeDate :: "int \<Rightarrow> int \<Rightarrow> int" where
  "MakeDate day time = day * msPerDay + time"

definition LocalTime :: "timeZone \<Rightarrow> date \<Rightarrow> int" where
  "LocalTime tz t = t + offsetAtUTC tz t"

definition UTC :: "timeZone \<Rightarrow> int \<Rightarrow> int" where
  "UTC tz t = t - offsetAtLocal tz t"

definition TimeClip :: "int \<Rightarrow> date option" where
  "TimeClip t = (if \<bar>t\<bar> \<le> 8640000000000000 then Some t else None)"

definition getDate :: "timeZone \<Rightarrow> date \<Rightarrow> int" where
  "getDate tz t = DateFromTime (LocalTime tz t)"

definition setDate :: "timeZone \<Rightarrow> date \<Rightarrow> int \<Rightarrow> date option" where
  "setDate tz t dt =
     (let tl = LocalTime tz t;
          newDate = MakeDate (MakeDay (YearFromTime tl) (MonthFromTime tl) dt) (TimeWithinDay tl)
      in TimeClip (UTC tz newDate))"

definition cutoffDate :: "timeZone \<Rightarrow> date \<Rightarrow> int option \<Rightarrow> date option" where
  "cutoffDate tz now daysOld =
     setDate tz now (getDate tz now - (case daysOld of None \<Rightarrow> 90 | Some d \<Rightarrow> d))"

text \<open>
  \<open>deleteOld\<close>: \<open>deleteMany\<close> on \<open>{ createdAt: { $lt: cutoffDate }, read: true }\<close>. The
  query is cast to the schema first; an invalid \<open>Date\<close> at \<open>createdAt\<close> fails the cast, the
  call is rejected with the cast error and no delete reaches the store.
\<close>

datatype queryError = CastError string

definition deleteOld :: "timeZone \<Rightarrow> date \<Rightarrow> int option \<Rightarrow> store \<Rightarrow> queryError + (store \<times> nat)" where
  "deleteOld tz now daysOld s =
     (case cutoffDate tz now daysOld of
        None \<Rightarrow> Inl (CastError ''createdAt'')
      | Some cutoff \<Rightarrow> Inr (deleteMany (\<lambda>n. createdAt n < cutoff \<and> read n = True) s))"

text \<open>
  \<open>findByRecipient\<close>. An option of the call is \<open>None\<close> when it is \<open>undefined\<close>. The source
  tests \<open>options.type\<close> and \<open>options.priority\<close> for truthiness, so the empty string counts
  as absent; \<open>options.read\<close> is compared with \<open>undefined\<close>; \<open>options.limit || 50\<close> replaces
  \<open>undefined\<close>, \<open>NaN\<close> (both \<open>None\<close> here) and \<open>0\<close> by 50.
\<close>

record options =
  opt_type :: "string option"
  opt_read :: "bool option"
  opt_priority :: "string option"
  opt_limit :: "int option"

definition truthy :: "string option \<Rightarrow> bool" where
  "truthy v \<longleftrightarrow> (case v of None \<Rightarrow> False | Some t \<Rightarrow> t \<noteq> [])"

definition recipientQuery :: "string \<Rightarrow> options \<Rightarrow> notification \<Rightarrow> bool" where
  "recipientQuery rid opts n \<longleftrightarrow>
     recipientId n = rid \<and>
     (if truthy (opt_type opts) then Some (ntype n) = opt_type opts else True) \<and>
     (case opt_read opts of None \<Rightarrow> True | Some b \<Rightarrow> read n = b) \<and>
     (if truthy (opt_priority opts) then Some (priority n) = opt_priority opts else True)"

definition limitOf :: "options \<Rightarrow> int" where
  "limitOf opts = (case opt_limit opts of None \<Rightarrow> 50 | Some l \<Rightarrow> if l = 0 then 50 else l)"

text \<open>
  The cursor's \<open>limit\<close>: a positive limit keeps that many documents and 0 is no limit. For
  a negative limit the store keeps at most its absolute value from a single batch; the
  batch size is not modelled, and nothing below is stated for a negative limit.
\<close>

definition cursorLimit :: "int \<Rightarrow> notification list \<Rightarrow> notification list" where
  "cursorLimit k xs = (if k = 0 then xs else take (nat \<bar>k\<bar>) xs)"

definition findByRecipient :: "string \<Rightarrow> options \<Rightarrow> store \<Rightarrow> notification list" where
  "findByRecipient rid opts s =
     cursorLimit (limitOf opts) (sortDesc createdAt (find_docs (recipientQuery rid opts) s))"

text \<open>
  \<open>getStats\<close>: the pipeline \<open>$match { recipientId }\<close>, then one \<open>$group\<close> with \<open>_id: null\<close>.
  The result is the array of groups: empty when nothing matches, else the one group, in which
  \<open>$sum\<close> adds up and \<open>$push\<close> appends one element for each matched document.
\<close>

record stats =
  total :: nat
  unread :: nat
  byType :: "(string \<times> nat) list"
  byPriority :: "(string \<times> nat) list"

definition getStats :: "string \<Rightarrow> store \<Rightarrow> stats list" where
  "getStats rid s =
     (let ms = filter (\<lambda>n. recipientId n = rid) s
      in if ms = [] then []
         else [\<lparr> total = sum_list (map (\<lambda>n. 1) ms),
                 unread = sum_list (map (\<lambda>n. if read n = False then 1 else 0) ms),
                 byType = map (\<lambda>n. (ntype n, 1)) ms,
                 byPriority = map (\<lambda>n. (priority n, 1)) ms \<rparr>])"

section \<open>The instance methods\<close>

text \<open>
  \<open>save\<close> runs the \<open>pre('save')\<close> hook, which sets \<open>updatedAt\<close>. A method reads the clock
  once for its own field and the hook once more; the model gives the whole call one
  instant \<open>now\<close>.
\<close>

definition save :: "date \<Rightarrow> notification \<Rightarrow> notification" where
  "save now n = n\<lparr>updatedAt := now\<rparr>"

definition markAsRead :: "date \<Rightarrow> notification \<Rightarrow> notification" where
  "markAsRead now n = save now (n\<lparr>read := True, readAt := Some now, status := ''read''\<rparr>)"

definition completeAction :: "date \<Rightarrow> notification \<Rightarrow> notification" where
  "completeAction now n = save now (n\<lparr>actionCompleted := True, actionCompletedAt := Some now\<rparr>)"

text \<open>
  \<open>markAsDelivered(channel, messageId)\<close>. For \<open>push\<close>, \<open>email\<close> and \<open>sms\<close> the three
  assignments write the channel's sub-record. For \<open>inApp\<close> they go to \<open>sent\<close>, \<open>sentAt\<close> and
  \<open>messageId\<close>, which are not paths of \<open>channels.inApp\<close>, so nothing of the stored
  document changes there. For any other string \<open>this.channels[channel]\<close> is \<open>undefined\<close>,
  or a property that the object inherits, on which the assignments touch no path of the
  schema: the stored sub-records stay as they are. The test of \<open>status\<close> and the \<open>save\<close>
  come after the \<open>if\<close> on the channel, for every channel. A \<open>messageId\<close> that is not
  given is \<open>None\<close>.
\<close>

definition deliver :: "date \<Rightarrow> string option \<Rightarrow> channel \<Rightarrow> channel" where
  "deliver now mid c = c\<lparr>sent := True, sentAt := Some now, messageId := mid\<rparr>"

definition setChannel :: "date \<Rightarrow> string \<Rightarrow> string option \<Rightarrow> channels \<Rightarrow> channels" where
  "setChannel now channel mid cs =
     (if channel = ''push'' then cs\<lparr>push := deliver now mid (push cs)\<rparr>
      else if channel = ''email'' then cs\<lparr>email := deliver now mid (email cs)\<rparr>
      else if channel = ''sms'' then cs\<lparr>sms := deliver now mid (sms cs)\<rparr>
      else cs)"

definition markAsDelivered :: "date \<Rightarrow> string \<Rightarrow> string option \<Rightarrow> notification \<Rightarrow> notification" where
  "markAsDelivered now channel mid n =
     (let n1 = n\<lparr>channels := setChannel now channel mid (channels n)\<rparr>;
          n2 = (if status n1 = ''pending'' then n1\<lparr>status := ''sent''\<rparr> else n1)
      in save now n2)"

section \<open>Creating a document\<close>

text \<open>
  \<open>Notification.create(fields)\<close>: a path that the caller leaves out takes the default of
  the schema; \<open>title\<close> and \<open>message\<close> are trimmed; then the validators run
  (\<open>required\<close>, which an empty string fails, \<open>enum\<close>, \<open>maxlength\<close>) and the call is rejected
  with the list of the failing paths. \<open>createdAt\<close> is kept when the caller gives it (the
  cleanup test does) and is the time of the call otherwise. The fresh \<open>_id\<close> is an argument.
  Strings of the model are ASCII, so the white space that \<open>trim\<close> removes is tab, line
  feed, vertical tab, form feed, carriage return and space.
\<close>

record fields =
  f_type :: "string option"
  f_title :: "string option"
  f_message :: "string option"
  f_priority :: "string option"
  f_recipientId :: "string option"
  f_recipientType :: "string option"
  f_status :: "string option"
  f_read :: "bool option"
  f_readAt :: "date option"
  f_actionRequired :: "bool option"
  f_actionCompleted :: "bool option"
  f_actionCompletedAt :: "date option"
  f_expiresAt :: "date option"
  f_createdAt :: "date option"

datatype error = ValidationError "string list"

definition typeEnum :: "string list" where
  "typeEnum = [''file_upload'', ''task_assigned'', ''task_due'', ''task_overdue'', ''alarm'',
     ''visit_status'', ''medicine_reminder'', ''care_plan_update'', ''system_alert'', ''other'']"

definition priorityEnum :: "string list" where
  "priorityEnum = [''low'', ''normal'', ''high'', ''urgent'']"

definition recipientTypeEnum :: "string list" where
  "recipientTypeEnum = [''staff'', ''patient'', ''admin'', ''system'']"

definition statusEnum :: "string list" where
  "statusEnum = [''pending'', ''sent'', ''delivered'', ''read'', ''failed'']"

definition isSpace :: "char \<Rightarrow> bool" where
  "isSpace c \<longleftrightarrow> c \<in> set [CHR 0x09, CHR 0x0A, CHR 0x0B, CHR 0x0C, CHR 0x0D, CHR '' '']"

definition trim :: "string \<Rightarrow> string" where
  "trim t = rev (dropWhile isSpace (rev (dropWhile isSpace t)))"

definition orDefault :: "'a option \<Rightarrow> 'a \<Rightarrow> 'a" where
  "orDefault v d = (case v of None \<Rightarrow> d | Some x \<Rightarrow> x)"

definition emptyChannel :: channel where
  "emptyChannel = \<lparr>sent = False, sentAt = None, messageId = None\<rparr>"

definition defaultChannels :: channels where
  "defaultChannels = \<lparr>push = emptyChannel, email = emptyChannel, sms = emptyChannel,
     inApp = \<lparr>displayed = False, displayedAt = None\<rparr>\<rparr>"

definition applyDefaults :: "date \<Rightarrow> nat \<Rightarrow> fields \<Rightarrow> notification" where
  "applyDefaults now newId f =
     \<lparr> nid = newId,
       ntype = orDefault (f_type f) [],
       title = trim (orDefault (f_title f) []),
       message = trim (orDefault (f_message f) []),
       priority = orDefault (f_priority f) ''normal'',
       recipientId = orDefault (f_recipientId f) [],
       recipientType = orDefault (f_recipientType f) ''staff'',
       status = orDefault (f_status f) ''pending'',
       read = orDefault (f_read f) False,
       readAt = f_readAt f,
       channels = defaultChannels,
       actionRequired = orDefault (f_actionRequired f) False,
       actionCompleted = orDefault (f_actionCompleted f) False,
       actionCompletedAt = f_actionCompletedAt f,
       expiresAt = f_expiresAt f,
       createdAt = orDefault (f_createdAt f) now,
       updatedAt = now \<rparr>"

definition validate :: "notification \<Rightarrow> string list" where
  "validate n =
     (if ntype n = [] \<or> ntype n \<notin> set typeEnum then [''type''] else []) @
     (if title n = [] \<or> 200 < length (title n) then [''title''] else []) @
     (if message n = [] \<or> 1000 < length (message n) then [''message''] else []) @
     (if priority n = [] \<or> priority n \<notin> set priorityEnum then [''priority''] else []) @
     (if recipientId n = [] then [''recipientId''] else []) @
     (if recipientType n \<notin> set recipientTypeEnum then [''recipientType''] else []) @
     (if status n \<notin> set statusEnum then [''status''] else [])"

definition create :: "date \<Rightarrow> nat \<Rightarrow> fields \<Rightarrow> store \<Rightarrow> error + (notification \<times> store)" where
  "create now newId f s =
     (let n = applyDefaults now newId f
      in if validate n = [] then Inr (n, s @ [n]) else Inl (ValidationError (validate n)))"

section \<open>The public operations on the collection\<close>

text \<open>
  The controller fetches a document with \<open>findById\<close>, calls the method on it, and the
  method's \<open>save\<close> writes the document back under its \<open>_id\<close>; an unknown id changes
  nothing (the controller answers 404).
\<close>

definition findById :: "nat \<Rightarrow> store \<Rightarrow> notification option" where
  "findById i s = List.find (\<lambda>n. nid n = i) s"

definition writeBack :: "notification \<Rightarrow> store \<Rightarrow> store" where
  "writeBack n' s = map (\<lambda>n. if nid n = nid n' then n' else n) s"

definition onDocument :: "nat \<Rightarrow> (notification \<Rightarrow> notification) \<Rightarrow> store \<Rightarrow> store" where
  "onDocument i method s = (case findById i s of None \<Rightarrow> s | Some n \<Rightarrow> writeBack (method n) s)"

datatype operation =
    Create date nat fields
  | MarkAsRead date nat
  | MarkAllAsRead date string
  | MarkAsDelivered date nat string "string option"
  | CompleteAction date nat

fun perform :: "operation \<Rightarrow> store \<Rightarrow> store" where
  "perform (Create now newId f) s = (case create now newId f s of Inl e \<Rightarrow> s | Inr (n, s') \<Rightarrow> s')"
| "perform (MarkAsRead now i) s = onDocument i (markAsRead now) s"
| "perform (MarkAllAsRead now rid) s = fst (markAllAsRead now rid s)"
| "perform (MarkAsDelivered now i channel mid) s = onDocument i (markAsDelivered now channel mid) s"
| "perform (CompleteAction now i) s = onDocument i (completeAction now) s"

text \<open>The collection after a sequence of operations, the first of the list first.\<close>

fun performAll :: "operation list \<Rightarrow> store \<Rightarrow> store" where
  "performAll [] s = s"
| "performAll (x # xs) s = performAll xs (perform x s)"

section \<open>The dispatch service (services/notificationService, snsService, sqsService)\<close>

text \<open>
  The request as \<open>createNotification\<close> destructures it; \<open>None\<close> is \<open>undefined\<close>. The
  payload is the object handed to both collaborators. \<open>metadata\<close> is a list of keys with
  their values.
\<close>

record notificationData =
  d_type :: string
  d_entityType :: "string option"
  d_entityId :: string
  d_title :: string
  d_message :: string
  d_priority :: "string option"
  d_recipients :: "string list option"
  d_metadata :: "(string \<times> string) list option"

record payload =
  p_id :: string
  p_type :: string
  p_entityType :: "string option"
  p_entityId :: string
  p_title :: string
  p_message :: string
  p_priority :: string
  p_recipients :: "string list"
  p_metadata :: "(string \<times> string) list"
  p_timestamp :: string
  p_status :: string

text \<open>
  The two AWS clients are outside the repository. The state \<open>aws\<close> lists the commands
  given to each, the oldest first: for SNS the topic ARN with the message, for SQS the
  queue URL with the message body. The environment says what a client answers to a
  command (the \<open>MessageId\<close>, or \<open>None\<close> when \<open>send\<close> throws), what \<open>config/aws\<close> holds for
  the topics and the queue, and whether \<open>NODE_ENV\<close> is \<open>development\<close>.
\<close>

record aws =
  snsCommands :: "(string \<times> payload) list"
  sqsCommands :: "(string option \<times> payload) list"

record env =
  development :: bool
  topics :: "string \<Rightarrow> string option"
  queueUrl :: "string option"
  snsSend :: "string \<Rightarrow> payload \<Rightarrow> string option"
  sqsSend :: "string option \<Rightarrow> payload \<Rightarrow> string option"

datatype dispatchError =
    UnknownEntityType "string option"
  | InvalidTopicType string
  | SnsSendFailed
  | SqsSendFailed

record channelResult =
  r_success :: bool
  r_messageId :: string
  r_target :: "string option"

record dispatchResult =
  success :: bool
  notification :: payload
  sns :: channelResult
  sqs :: channelResult

text \<open>
  \<open>publishToSNS\<close> throws before any command when \<open>topics[topicType]\<close> is falsy, that is
  unset or empty; \<open>sendToSQS\<close> sends whatever the queue URL is.
\<close>

definition publishToSNS :: "env \<Rightarrow> string \<Rightarrow> payload \<Rightarrow> aws \<Rightarrow> (dispatchError + channelResult) \<times> aws" where
  "publishToSNS e topicType n w =
     (case topics e topicType of
        None \<Rightarrow> (Inl (InvalidTopicType topicType), w)
      | Some topicArn \<Rightarrow>
          if topicArn = [] then (Inl (InvalidTopicType topicType), w)
          else
            let w' = w\<lparr>snsCommands := snsCommands w @ [(topicArn, n)]\<rparr>
            in case snsSend e topicArn n of
                 None \<Rightarrow> (Inl SnsSendFailed, w')
               | Some mid \<Rightarrow> (Inr \<lparr>r_success = True, r_messageId = mid, r_target = Some topicArn\<rparr>, w'))"

definition sendToSQS :: "env \<Rightarrow> payload \<Rightarrow> aws \<Rightarrow> (dispatchError + channelResult) \<times> aws" where
  "sendToSQS e n w =
     (let w' = w\<lparr>sqsCommands := sqsCommands w @ [(queueUrl e, n)]\<rparr>
      in case sqsSend e (queueUrl e) n of
           None \<Rightarrow> (Inl SqsSendFailed, w')
         | Some mid \<Rightarrow> (Inr \<lparr>r_success = True, r_messageId = mid, r_target = queueUrl e\<rparr>, w'))"

text \<open>The \<open>switch (entityType)\<close>; \<open>None\<close> is its \<open>default\<close> branch, which throws.\<close>

definition topicTypeOf :: "string option \<Rightarrow> string option" where
  "topicTypeOf entityType =
     (if entityType = Some ''task'' then Some ''TASK''
      else if entityType = Some ''alarm'' then Some ''ALARM''
      else if entityType = Some ''visit'' then Some ''VISIT''
      else if entityType = Some ''medicine'' then Some ''MEDICINE''
      else if entityType = Some ''audio'' then Some ''TASK''
      else if entityType = Some ''photo'' then Some ''TASK''
      else None)"

definition localDevMock :: channelResult where
  "localDevMock = \<lparr>r_success = True, r_messageId = ''local-dev-mock'', r_target = None\<rparr>"

text \<open>
  \<open>createNotification\<close>; the fresh \<open>uuidv4()\<close> and the ISO string of the clock are
  arguments. The result comes with the state of the two clients after the call, also when
  the call throws.
\<close>

definition createNotification ::
  "env \<Rightarrow> string \<Rightarrow> string \<Rightarrow> notificationData \<Rightarrow> aws \<Rightarrow> (dispatchError + dispatchResult) \<times> aws" where
  "createNotification e uuid timestamp d w =
     (let n = \<lparr> p_id = uuid, p_type = d_type d, p_entityType = d_entityType d,
                 p_entityId = d_entityId d, p_title = d_title d, p_message = d_message d,
                 p_priority = orDefault (d_priority d) ''normal'',
                 p_recipients = orDefault (d_recipients d) [],
                 p_metadata = orDefault (d_metadata d) [],
                 p_timestamp = timestamp, p_status = ''sent'' \<rparr>
      in case topicTypeOf (d_entityType d) of
           None \<Rightarrow> (Inl (UnknownEntityType (d_entityType d)), w)
         | Some topicType \<Rightarrow>
             if development e
             then (Inr \<lparr>success = True, notification = n, sns = localDevMock, sqs = localDevMock\<rparr>, w)
             else
               (case publishToSNS e topicType n w of
                  (Inl err, w1) \<Rightarrow> (Inl err, w1)
                | (Inr snsResult, w1) \<Rightarrow>
                    (case sendToSQS e n w1 of
                       (Inl err, w2) \<Rightarrow> (Inl err, w2)
                     | (Inr sqsResult, w2) \<Rightarrow>
                         (Inr \<lparr>success = True, notification = n, sns = snsResult, sqs = sqsResult\<rparr>, w2))))"

section \<open>Notions of the specification\<close>

text \<open>The channel keys that the specification calls recognized.\<close>

definition channelKeys :: "string list" where
  "channelKeys = [''push'', ''email'', ''sms'', ''inApp'']"

text \<open>The entity types that the specification lists for the dispatch.\<close>

definition entityTypes :: "string list" where
  "entityTypes = [''task'', ''alarm'', ''visit'', ''medicine'', ''audio'', ''photo'']"

text \<open>The invariant of the data model: \<open>readAt\<close> is non-null if and only if \<open>read\<close> is true.\<close>

definition readInvariant :: "notification \<Rightarrow> bool" where
  "readInvariant n \<longleftrightarrow> (readAt n \<noteq> None) = read n"

text \<open>
  A creation request is consistent when the \<open>readAt\<close> it gives is non-null exactly when the
  \<open>read\<close> it gives (\<open>false\<close> when it gives none) is true; the other operations carry no
  such fields.
\<close>

fun consistentRequest :: "operation \<Rightarrow> bool" where
  "consistentRequest (Create now newId f) \<longleftrightarrow> (f_readAt f \<noteq> None) = orDefault (f_read f) False"
| "consistentRequest (MarkAsRead now i) \<longleftrightarrow> True"
| "consistentRequest (MarkAllAsRead now rid) \<longleftrightarrow> True"
| "consistentRequest (MarkAsDelivered now i channel mid) \<longleftrightarrow> True"
| "consistentRequest (CompleteAction now i) \<longleftrightarrow> True"

text \<open>
  A per-value breakdown as the specification words it: one entry for each distinct value
  of the key among the documents, holding the number of documents with that value.
\<close>

definition perValueBreakdown ::
  "(notification \<Rightarrow> string) \<Rightarrow> notification list \<Rightarrow> (string \<times> nat) list \<Rightarrow> bool" where
  "perValueBreakdown key ms bd \<longleftrightarrow>
     distinct (map fst bd) \<and> set (map fst bd) = set (map key ms) \<and>
     list_all (\<lambda>(v, c). c = length (filter (\<lambda>n. key n = v) ms)) bd"

section \<open>Example requests and collections\<close>

text \<open>
  The creation requests are those of the repository's tests; the collections are built
  from the empty one by the public operations.
\<close>

definition noFields :: fields where
  "noFields = \<lparr> f_type = None, f_title = None, f_message = None, f_priority = None,
     f_recipientId = None, f_recipientType = None, f_status = None, f_read = None,
     f_readAt = None, f_actionRequired = None, f_actionCompleted = None,
     f_actionCompletedAt = None, f_expiresAt = None, f_createdAt = None \<rparr>"

definition photoFields :: fields where
  "photoFields = noFields\<lparr> f_type := Some ''file_upload'', f_title := Some ''Photo 1'',
     f_message := Some ''Photo uploaded'', f_recipientId := Some ''doctor1'',
     f_priority := Some ''high'', f_read := Some False \<rparr>"

definition taskFields :: fields where
  "taskFields = noFields\<lparr> f_type := Some ''task_assigned'', f_title := Some ''Task 1'',
     f_message := Some ''Task assigned'', f_recipientId := Some ''doctor1'',
     f_priority := Some ''normal'', f_read := Some False \<rparr>"


definition pendingDoc :: notification where
  "pendingDoc = applyDefaults 1000 1 taskFields"

definition twoUnread :: store where
  "twoUnread = performAll [Create 1000 1 taskFields, Create 2000 2 photoFields] []"

definition twoPhotos :: store where
  "twoPhotos = performAll [Create 1000 1 photoFields, Create 2000 2 photoFields] []"



definition lifecycle :: "operation list" where
  "lifecycle = [Create 1000 1 taskFields, Create 2000 2 photoFields, MarkAsRead 3000 1,
     MarkAsDelivered 3500 2 ''push'' (Some ''msg-123''), CompleteAction 3600 2,
     MarkAllAsRead 4000 ''doctor1'']"

text \<open>
  The collection of the cleanup scenario: a read notification created on 28 March 2024
  at 12:30 UTC, a read one created at 13:30 UTC, and an unread one created at 12:30 UTC.
\<close>

definition cleanupStore :: store where
  "cleanupStore = performAll
     [Create 1712000000000 1 (taskFields\<lparr>f_read := Some True, f_createdAt := Some 1711629000000\<rparr>),
      Create 1712000000000 2 (taskFields\<lparr>f_read := Some True, f_createdAt := Some 1711632600000\<rparr>),
      Create 1712000000000 3 (taskFields\<lparr>f_createdAt := Some 1711629000000\<rparr>)] []"

text \<open>
  A host on UTC, and a host whose clock goes from two to three hours ahead of UTC on
  31 March 2024 at 01:00 UTC, when local time jumps from 03:00 to 04:00 (as in Helsinki).
\<close>

definition utcZone :: timeZone where
  "utcZone = \<lparr>offsetAtUTC = (\<lambda>t. 0), offsetAtLocal = (\<lambda>t. 0)\<rparr>"

definition helsinkiZone :: timeZone where
  "helsinkiZone = \<lparr>offsetAtUTC = (\<lambda>t. if t < 1711846800000 then 7200000 else 10800000),
                    offsetAtLocal = (\<lambda>t. if t < 1711857600000 then 7200000 else 10800000)\<rparr>"

definition noOptions :: options where
  "noOptions = \<lparr>opt_type = None, opt_read = None, opt_priority = None, opt_limit = None\<rparr>"

definition unreadTasks :: options where
  "unreadTasks = \<lparr>opt_type = Some ''task_assigned'', opt_read = Some False, opt_priority = None,
     opt_limit = Some 1\<rparr>"

definition prodEnv :: env where
  "prodEnv = \<lparr> development = False,
       topics = (\<lambda>t. if t = ''TASK'' then Some ''arn:aws:sns:eu-north-1:1:task'' else None),
       queueUrl = Some ''https://sqs.eu-north-1.amazonaws.com/1/notifications'',
       snsSend = (\<lambda>arn n. Some ''sns-message-1''),
       sqsSend = (\<lambda>url n. Some ''sqs-message-1'') \<rparr>"

definition idle :: aws where
  "idle = \<lparr>snsCommands = [], sqsCommands = []\<rparr>"

definition uploadData :: "string option \<Rightarrow> notificationData" where
  "uploadData entityType = \<lparr> d_type = ''file_upload'', d_entityType = entityType,
     d_entityId = ''file789'', d_title = ''File Uploaded'',
     d_message = ''A new file has been uploaded'', d_priority = None, d_recipients = None,
     d_metadata = None \<rparr>"

lemmas ex_defs = twoUnread_def photoFields_def taskFields_def noFields_def create_def
  applyDefaults_def validate_def orDefault_def trim_def isSpace_def typeEnum_def priorityEnum_def
  statusEnum_def recipientTypeEnum_def defaultChannels_def emptyChannel_def Let_def

section \<open>Sorting\<close>

lemma set_sortDesc: "set (sortDesc key xs) = set xs"
  by (simp add: sortDesc_def)

lemma length_sortDesc: "length (sortDesc key xs) = length xs"
  by (simp add: sortDesc_def)

lemma mset_sortDesc: "mset (sortDesc key xs) = mset xs"
  by (simp add: sortDesc_def)

lemma sorted_sortDesc: "sorted_wrt (\<lambda>a b. key b \<le> key a) (sortDesc key xs)"
proof -
  have "sorted (map key (sort_key key xs))"
    by (rule sorted_sort_key)
  then have "sorted_wrt (\<lambda>a b. key a \<le> key b) (sort_key key xs)"
    by (simp add: sorted_map)
  then show ?thesis
    by (simp add: sortDesc_def sorted_wrt_rev)
qed

section \<open>The unread queries\<close>

text \<open>
  What \<open>findUnread\<close> returns holds exactly the recipient's unread notifications that have
  not expired, and is in descending order of the pair of the \<open>priority\<close> string and
  \<open>createdAt\<close>.
\<close>

lemma set_findUnread:
  "set (findUnread now rid s) = {n \<in> set s. recipientId n = rid \<and> read n = False \<and>
      (expiresAt n = None \<or> (\<exists>e. expiresAt n = Some e \<and> now < e))}"
  by (auto simp: findUnread_def find_docs_def set_sortDesc unreadQuery_def split: option.splits)

lemma sorted_findUnread:
  "sorted_wrt (\<lambda>a b. (priority b, createdAt b) \<le> (priority a, createdAt a)) (findUnread now rid s)"
  unfolding findUnread_def by (rule sorted_sortDesc)

text \<open>
  Claim C1. \<open>findUnread\<close> is to put a higher priority first, \<open>urgent\<close> over \<open>high\<close> over
  \<open>normal\<close> over \<open>low\<close>. The sort key is the string, and as strings \<open>high\<close> is below
  \<open>low\<close>, \<open>normal\<close> and \<open>urgent\<close>: with an unread \<open>normal\<close> notification created at 1000 and
  an unread \<open>high\<close> one created at 2000 for the same recipient, \<open>findUnread\<close> returns the
  \<open>normal\<close> one first.
\<close>

theorem findUnread_high_after_normal:
  "map (\<lambda>n. (priority n, createdAt n)) (findUnread 5000 ''doctor1'' twoUnread)
     = [(''normal'', 1000), (''high'', 2000)]"
  by code_simp

text \<open>
  Claim C6. For every recipient and every state of the collection (so every reachable
  one), at any one instant \<open>getUnreadCount\<close> is the length of what \<open>findUnread\<close> returns.
\<close>

theorem getUnreadCount_eq_length_findUnread:
  "getUnreadCount now rid s = length (findUnread now rid s)"
  by (simp add: getUnreadCount_def findUnread_def countDocuments_def find_docs_def length_sortDesc)

section \<open>Delivery to a channel\<close>

text \<open>
  Claim C2, as stated, fails: on a pending notification \<open>markAsDelivered\<close> with the
  unrecognized channel \<open>fax\<close> is no no-op, it moves \<open>status\<close> from \<open>pending\<close> to \<open>sent\<close>.
\<close>

theorem markAsDelivered_unknown_channel_counterexample:
  "''fax'' \<notin> set channelKeys \<and> status pendingDoc = ''pending'' \<and>
   status (markAsDelivered 9000 ''fax'' (Some ''msg-123'') pendingDoc) = ''sent'' \<and>
   markAsDelivered 9000 ''fax'' (Some ''msg-123'') pendingDoc \<noteq> pendingDoc"
  by (simp add: channelKeys_def pendingDoc_def markAsDelivered_def setChannel_def save_def ex_defs)

text \<open>
  Claim C2, amended. For every notification and every channel string that is not one of
  \<open>push\<close>, \<open>email\<close>, \<open>sms\<close>, \<open>inApp\<close>, \<open>markAsDelivered\<close> leaves every channel sub-record
  and every other field as it was, except that a \<open>pending\<close> status becomes \<open>sent\<close> and that
  \<open>save\<close> refreshes \<open>updatedAt\<close>.
\<close>

theorem markAsDelivered_unknown_channel:
  "channel \<notin> set channelKeys \<Longrightarrow>
   markAsDelivered now channel mid n =
     n\<lparr>status := (if status n = ''pending'' then ''sent'' else status n), updatedAt := now\<rparr>"
  by (simp add: channelKeys_def markAsDelivered_def setChannel_def save_def Let_def)

text \<open>Claim C2, amended, at the channel \<open>fax\<close> on a pending notification.\<close>

theorem markAsDelivered_unknown_channel_witness:
  "''fax'' \<notin> set channelKeys \<and>
   markAsDelivered 9000 ''fax'' (Some ''msg-123'') pendingDoc =
     pendingDoc\<lparr>status := ''sent'', updatedAt := 9000\<rparr>"
proof -
  have k: "''fax'' \<notin> set channelKeys" by (simp add: channelKeys_def)
  have p: "status pendingDoc = ''pending''" by (simp add: pendingDoc_def ex_defs)
  show ?thesis
    using k markAsDelivered_unknown_channel [OF k, of 9000 "Some ''msg-123''" pendingDoc] p
    by simp
qed

section \<open>The invariant on \<open>read\<close> and \<open>readAt\<close>\<close>

text \<open>
  Claim C3, as stated, fails: \<open>create\<close> accepts \<open>read: true\<close> without a \<open>readAt\<close> (the
  repository's tests create such documents), and the stored notification then has \<open>read\<close>
  true and \<open>readAt\<close> null.
\<close>

theorem create_read_without_readAt_counterexample:
  "map (\<lambda>n. (read n, readAt n)) (performAll [Create 1000 1 (taskFields\<lparr>f_read := Some True\<rparr>)] [])
     = [(True, None)]"
  by (simp add: ex_defs)

lemma readInvariant_markAsRead: "readInvariant (markAsRead now n)"
  by (simp add: readInvariant_def markAsRead_def save_def)

lemma readInvariant_completeAction: "readInvariant n \<Longrightarrow> readInvariant (completeAction now n)"
  by (simp add: readInvariant_def completeAction_def save_def)

lemma readInvariant_markAsDelivered:
  "readInvariant n \<Longrightarrow> readInvariant (markAsDelivered now channel mid n)"
  by (simp add: readInvariant_def markAsDelivered_def save_def Let_def)

lemma findById_in_set: "findById i s = Some n \<Longrightarrow> n \<in> set s"
  by (auto simp: findById_def find_Some_iff)

lemma readInvariant_onDocument:
  assumes "\<And>n. readInvariant n \<Longrightarrow> readInvariant (method n)" and "list_all readInvariant s"
  shows "list_all readInvariant (onDocument i method s)"
proof (cases "findById i s")
  case None
  then show ?thesis using assms(2) by (simp add: onDocument_def)
next
  case (Some n)
  then have "readInvariant n"
    using assms(2) findById_in_set by (auto simp: list_all_iff)
  then have "readInvariant (method n)" by (rule assms(1))
  then show ?thesis
    using assms(2) Some by (auto simp: onDocument_def writeBack_def list_all_iff)
qed

lemma readInvariant_markAllAsRead:
  "list_all readInvariant s \<Longrightarrow> list_all readInvariant (fst (markAllAsRead now rid s))"
  by (auto simp: markAllAsRead_def updateMany_def list_all_iff readInvariant_def)

lemma readInvariant_create:
  "consistentRequest (Create now newId f) \<Longrightarrow> list_all readInvariant s \<Longrightarrow>
   list_all readInvariant (perform (Create now newId f) s)"
  by (auto simp: create_def Let_def list_all_iff readInvariant_def applyDefaults_def)

lemma readInvariant_perform:
  "consistentRequest x \<Longrightarrow> list_all readInvariant s \<Longrightarrow> list_all readInvariant (perform x s)"
proof (cases x)
  case (Create now newId f)
  assume "consistentRequest x" "list_all readInvariant s"
  with Create show ?thesis using readInvariant_create by blast
next
  case (MarkAsRead now i)
  assume "list_all readInvariant s"
  with MarkAsRead show ?thesis
    by (simp add: readInvariant_onDocument readInvariant_markAsRead)
next
  case (MarkAllAsRead now rid)
  assume "list_all readInvariant s"
  with MarkAllAsRead show ?thesis by (simp add: readInvariant_markAllAsRead)
next
  case (MarkAsDelivered now i channel mid)
  assume "list_all readInvariant s"
  with MarkAsDelivered show ?thesis
    by (simp add: readInvariant_onDocument readInvariant_markAsDelivered)
next
  case (CompleteAction now i)
  assume "list_all readInvariant s"
  with CompleteAction show ?thesis
    by (simp add: readInvariant_onDocument readInvariant_completeAction)
qed

text \<open>
  Claim C3, amended. When every creation request is consistent (it gives a non-null
  \<open>readAt\<close> exactly when it gives \<open>read: true\<close>; in particular when it gives neither), every
  notification reachable through \<open>create\<close>, \<open>markAsRead\<close>, \<open>markAllAsRead\<close>,
  \<open>markAsDelivered\<close> and \<open>completeAction\<close> has \<open>readAt\<close> non-null if and only if \<open>read\<close> is
  true. The operations keep the invariant from any collection that has it, the empty one
  included.
\<close>

theorem readAt_iff_read_preserved:
  "list_all consistentRequest ops \<Longrightarrow> list_all readInvariant s \<Longrightarrow>
   list_all readInvariant (performAll ops s)"
proof (induction ops arbitrary: s)
  case Nil
  then show ?case by simp
next
  case (Cons x xs)
  then show ?case by (simp add: readInvariant_perform)
qed

text \<open>
  Claim C3, amended, on a run from the empty collection: two creations, then one of each
  other operation.
\<close>

theorem readAt_iff_read_preserved_witness:
  "list_all consistentRequest lifecycle \<and> list_all readInvariant [] \<and>
   map (\<lambda>n. (read n, readAt n)) (performAll lifecycle []) = [(True, Some 3000), (True, Some 4000)] \<and>
   list_all readInvariant (performAll lifecycle [])"
proof -
  have a: "list_all consistentRequest lifecycle"
    by (simp add: lifecycle_def ex_defs)
  have b: "list_all readInvariant []" by simp
  have c: "map (\<lambda>n. (read n, readAt n)) (performAll lifecycle []) = [(True, Some 3000), (True, Some 4000)]"
    by code_simp
  show ?thesis
    using a b c readAt_iff_read_preserved [OF a b] by simp
qed

section \<open>Marking all as read\<close>

lemma markAllAsRead_store:
  "fst (markAllAsRead now rid s) =
     map (\<lambda>n. if recipientId n = rid \<and> read n = False
               then n\<lparr>read := True, readAt := Some now, status := ''read'', updatedAt := now\<rparr>
               else n) s"
  by (simp add: markAllAsRead_def updateMany_def)

lemma markAllAsRead_changes: "read n = False \<Longrightarrow>
  n\<lparr>read := True, readAt := Some now, status := ''read'', updatedAt := now\<rparr> \<noteq> n"
proof
  assume u: "read n = False"
    and e: "n\<lparr>read := True, readAt := Some now, status := ''read'', updatedAt := now\<rparr> = n"
  have "read (n\<lparr>read := True, readAt := Some now, status := ''read'', updatedAt := now\<rparr>) = True"
    by simp
  with e have "read n = True" by simp
  with u show False by simp
qed

lemma markAllAsRead_count:
  "snd (markAllAsRead now rid s) = length (filter (\<lambda>n. recipientId n = rid \<and> read n = False) s)"
  unfolding markAllAsRead_def updateMany_def snd_conv
  by (rule arg_cong [where f = length], rule filter_cong [OF refl])
     (use markAllAsRead_changes in blast)

lemma markAllAsRead_none_unread:
  "filter (\<lambda>n. recipientId n = rid \<and> read n = False) (fst (markAllAsRead now rid s)) = []"
  by (induction s) (auto simp: markAllAsRead_store)

lemma getUnreadCount_after_markAllAsRead:
  "getUnreadCount later rid (fst (markAllAsRead now rid s)) = 0"
proof -
  have "filter (unreadQuery later rid) (fst (markAllAsRead now rid s)) = []"
    by (induction s) (auto simp: markAllAsRead_store unreadQuery_def)
  then show ?thesis by (simp add: getUnreadCount_def countDocuments_def)
qed

text \<open>
  Claim C4. For every recipient and every prior state, \<open>markAllAsRead\<close> sets \<open>read\<close> to
  true, \<open>readAt\<close> to now and \<open>status\<close> to \<open>read\<close> on every unread notification of the
  recipient (with \<open>updatedAt\<close>, by the timestamps of the schema) and on no other;
  \<open>modifiedCount\<close> is the number of those notifications; at any later instant
  \<open>getUnreadCount\<close> of the recipient is 0, and a second call has \<open>modifiedCount\<close> 0.
\<close>

theorem markAllAsRead_marks_counts_idempotent:
  "fst (markAllAsRead now rid s) =
     map (\<lambda>n. if recipientId n = rid \<and> read n = False
               then n\<lparr>read := True, readAt := Some now, status := ''read'', updatedAt := now\<rparr>
               else n) s \<and>
   snd (markAllAsRead now rid s) = length (filter (\<lambda>n. recipientId n = rid \<and> read n = False) s) \<and>
   getUnreadCount later rid (fst (markAllAsRead now rid s)) = 0 \<and>
   snd (markAllAsRead later rid (fst (markAllAsRead now rid s))) = 0"
proof -
  have "snd (markAllAsRead later rid (fst (markAllAsRead now rid s))) = 0"
    by (simp only: markAllAsRead_count markAllAsRead_none_unread list.size)
  then show ?thesis
    using markAllAsRead_store markAllAsRead_count getUnreadCount_after_markAllAsRead by blast
qed

section \<open>Deleting old notifications\<close>

text \<open>
  Setting the date to the present date minus \<open>d\<close> moves the local time back by \<open>d\<close> days
  and keeps the time within the day.
\<close>

lemma MonthFromTime_range: "0 \<le> MonthFromTime t \<and> MonthFromTime t \<le> 11"
  by (simp add: MonthFromTime_def Let_def)

lemma MakeDay_same_month:
  "MakeDay (YearFromTime t) (MonthFromTime t) (DateFromTime t - d) = Day t - d"
proof -
  have "MonthFromTime t div 12 = 0" and "MonthFromTime t mod 12 = MonthFromTime t"
    using MonthFromTime_range [of t] by simp_all
  then show ?thesis
    by (simp add: MakeDay_def DateFromTime_def DayWithinYear_def InLeapYear_def Let_def)
qed

lemma MakeDate_days_back: "MakeDate (Day t - d) (TimeWithinDay t) = t - d * 86400000"
  by (simp add: MakeDate_def Day_def TimeWithinDay_def msPerDay_def algebra_simps)

lemma cutoffDate_explicit:
  "cutoffDate tz now daysOld =
     (let d = (case daysOld of None \<Rightarrow> 90 | Some d \<Rightarrow> d);
          localCutoff = now + offsetAtUTC tz now - d * 86400000;
          cutoff = localCutoff - offsetAtLocal tz localCutoff
      in if \<bar>cutoff\<bar> \<le> 8640000000000000 then Some cutoff else None)"
  by (simp only: cutoffDate_def setDate_def getDate_def Let_def MakeDay_same_month
        MakeDate_days_back LocalTime_def UTC_def TimeClip_def)

lemma deleteMany_kept:
  "fst (deleteMany (\<lambda>n. createdAt n < c \<and> read n = True) s) =
     filter (\<lambda>n. read n = False \<or> c \<le> createdAt n) s"
  unfolding deleteMany_def fst_conv by (rule filter_cong [OF refl]) auto

lemma deleteMany_count:
  "snd (deleteMany (\<lambda>n. createdAt n < c \<and> read n = True) s) =
     length (filter (\<lambda>n. read n = True \<and> createdAt n < c) s)"
  unfolding deleteMany_def snd_conv
  by (rule arg_cong [where f = length], rule filter_cong [OF refl]) auto

text \<open>
  Claim C5, as stated, fails: for \<open>daysOld\<close> = \<open>-1000000000\<close> the day that lies \<open>daysOld\<close>
  days before now is far in the future, every stored notification is older than it, and
  two of the three are read; but that cutoff is outside the range of \<open>Date\<close>, the call is
  rejected with the cast error, and nothing is removed.
\<close>

theorem deleteOld_invalid_cutoff_counterexample:
  "deleteOld utcZone 1712059200000 (Some (- 1000000000)) cleanupStore = Inl (CastError ''createdAt'') \<and>
   length (filter (\<lambda>n. read n = True \<and> createdAt n < 1712059200000 - (- 1000000000) * 86400000)
     cleanupStore) = 2"
  by (simp add: deleteOld_def cutoffDate_explicit utcZone_def cleanupStore_def ex_defs)

text \<open>
  Claim C5, amended. For every whole \<open>daysOld\<close> (90 when omitted), every time zone of the
  host and every collection, let the cutoff be now moved back by \<open>daysOld\<close> calendar days
  in local time: the local time of now, minus \<open>daysOld\<close> times 86400000 ms, taken back to
  UTC with the offset in force at that local time. When the cutoff is within the range of
  \<open>Date\<close> (at most 8640000000000000 ms from the epoch), \<open>deleteOld\<close> removes exactly the
  notifications with \<open>createdAt\<close> older than the cutoff and \<open>read\<close> true: the unread ones
  and the ones not older than the cutoff are what remains, and \<open>deletedCount\<close> is the number
  of the removed ones. Otherwise the call is rejected with a cast error and removes
  nothing. In both cases every unread notification stays, whatever its age.
\<close>

theorem deleteOld_removes_old_read_only:
  "deleteOld tz now daysOld s =
     (let d = (case daysOld of None \<Rightarrow> 90 | Some d \<Rightarrow> d);
          localCutoff = now + offsetAtUTC tz now - d * 86400000;
          cutoff = localCutoff - offsetAtLocal tz localCutoff
      in if \<bar>cutoff\<bar> \<le> 8640000000000000
         then Inr (filter (\<lambda>n. read n = False \<or> cutoff \<le> createdAt n) s,
                   length (filter (\<lambda>n. read n = True \<and> createdAt n < cutoff) s))
         else Inl (CastError ''createdAt'')) \<and>
   filter (\<lambda>n. read n = False) (case deleteOld tz now daysOld s of Inl e \<Rightarrow> s | Inr r \<Rightarrow> fst r) =
     filter (\<lambda>n. read n = False) s"
proof -
  define c where "c = cutoffDate tz now daysOld"
  have a: "deleteOld tz now daysOld s =
      (case c of None \<Rightarrow> Inl (CastError ''createdAt'')
       | Some cutoff \<Rightarrow> Inr (filter (\<lambda>n. read n = False \<or> cutoff \<le> createdAt n) s,
                   length (filter (\<lambda>n. read n = True \<and> createdAt n < cutoff) s)))"
  proof (cases c)
    case None
    then show ?thesis
      unfolding deleteOld_def c_def [symmetric] by simp
  next
    case (Some cutoff)
    have "deleteMany (\<lambda>n. createdAt n < cutoff \<and> read n = True) s =
        (filter (\<lambda>n. read n = False \<or> cutoff \<le> createdAt n) s,
         length (filter (\<lambda>n. read n = True \<and> createdAt n < cutoff) s))"
      by (rule prod_eqI) (simp_all only: fst_conv snd_conv deleteMany_kept deleteMany_count)
    then show ?thesis
      unfolding deleteOld_def c_def [symmetric] Some by (simp only: option.case)
  qed
  have b: "filter (\<lambda>n. read n = False) (case deleteOld tz now daysOld s of Inl e \<Rightarrow> s | Inr r \<Rightarrow> fst r) =
     filter (\<lambda>n. read n = False) s"
    unfolding a by (cases c) (auto intro: filter_cong)
  have "deleteOld tz now daysOld s =
     (let d = (case daysOld of None \<Rightarrow> 90 | Some d \<Rightarrow> d);
          localCutoff = now + offsetAtUTC tz now - d * 86400000;
          cutoff = localCutoff - offsetAtLocal tz localCutoff
      in if \<bar>cutoff\<bar> \<le> 8640000000000000
         then Inr (filter (\<lambda>n. read n = False \<or> cutoff \<le> createdAt n) s,
                   length (filter (\<lambda>n. read n = True \<and> createdAt n < cutoff) s))
         else Inl (CastError ''createdAt''))"
    unfolding a c_def cutoffDate_explicit Let_def by simp
  with b show ?thesis by blast
qed

text \<open>
  Claim C5, amended, on the cleanup collection. On the host with the clock change, at
  2 April 2024 12:00 UTC with \<open>daysOld\<close> 5, the cutoff is 28 March 13:00 UTC (15:00 local
  time on both days): the read notification of 12:30 is removed, the read one of 13:30
  and the unread one stay. On the UTC host, 100 days later and with \<open>daysOld\<close> omitted, both
  read notifications are older than 90 days and are removed, and the unread one stays.
\<close>

theorem deleteOld_removes_old_read_only_witness:
  "map (\<lambda>n. (nid n, read n, createdAt n)) cleanupStore =
     [(1, True, 1711629000000), (2, True, 1711632600000), (3, False, 1711629000000)] \<and>
   deleteOld helsinkiZone 1712059200000 (Some 5) cleanupStore =
     Inr (filter (\<lambda>n. nid n \<noteq> 1) cleanupStore, 1) \<and>
   deleteOld utcZone 1720699200000 None cleanupStore =
     Inr (filter (\<lambda>n. nid n = 3) cleanupStore, 2)"
proof -
  have s: "map (\<lambda>n. (nid n, read n, createdAt n)) cleanupStore =
     [(1, True, 1711629000000), (2, True, 1711632600000), (3, False, 1711629000000)]"
    by (simp add: cleanupStore_def ex_defs)
  have h: "deleteOld helsinkiZone 1712059200000 (Some 5) cleanupStore =
     Inr (filter (\<lambda>n. nid n \<noteq> 1) cleanupStore, 1)"
    using deleteOld_removes_old_read_only [of helsinkiZone 1712059200000 "Some 5" cleanupStore]
    by (simp add: helsinkiZone_def cleanupStore_def ex_defs)
  have u: "deleteOld utcZone 1720699200000 None cleanupStore =
     Inr (filter (\<lambda>n. nid n = 3) cleanupStore, 2)"
    using deleteOld_removes_old_read_only [of utcZone 1720699200000 None cleanupStore]
    by (simp add: utcZone_def cleanupStore_def ex_defs)
  from s h u show ?thesis by blast
qed

section \<open>The dispatch\<close>

lemma topicTypeOf_None: "entityType \<notin> set (map Some entityTypes) \<Longrightarrow> topicTypeOf entityType = None"
  by (auto simp: entityTypes_def topicTypeOf_def)

text \<open>
  Claim C7. For every creation request whose \<open>entityType\<close> is none of \<open>task\<close>, \<open>alarm\<close>,
  \<open>visit\<close>, \<open>medicine\<close>, \<open>audio\<close>, \<open>photo\<close> (or is absent), \<open>createNotification\<close> throws the
  unknown-entity-type error and gives no command to the SNS client nor to the SQS client.
  For \<open>audio\<close> and \<open>photo\<close> the topic type is \<open>TASK\<close>: outside development mode, with the
  \<open>TASK\<close> topic configured, the call publishes to the ARN of that topic.
\<close>

theorem createNotification_routing:
  "(d_entityType d \<notin> set (map Some entityTypes) \<longrightarrow>
      createNotification e uuid ts d w = (Inl (UnknownEntityType (d_entityType d)), w)) \<and>
   (d_entityType d = Some ''audio'' \<or> d_entityType d = Some ''photo'' \<longrightarrow>
      topicTypeOf (d_entityType d) = Some ''TASK'' \<and>
      (\<not> development e \<and> topics e ''TASK'' = Some arn \<and> arn \<noteq> [] \<longrightarrow>
         map fst (snsCommands (snd (createNotification e uuid ts d w))) =
           map fst (snsCommands w) @ [arn]))"
proof (intro conjI impI)
  assume "d_entityType d \<notin> set (map Some entityTypes)"
  then have "topicTypeOf (d_entityType d) = None" by (rule topicTypeOf_None)
  then show "createNotification e uuid ts d w = (Inl (UnknownEntityType (d_entityType d)), w)"
    by (simp add: createNotification_def)
next
  assume "d_entityType d = Some ''audio'' \<or> d_entityType d = Some ''photo''"
  then show "topicTypeOf (d_entityType d) = Some ''TASK''"
    by (auto simp: topicTypeOf_def)
next
  assume t: "d_entityType d = Some ''audio'' \<or> d_entityType d = Some ''photo''"
    and e: "\<not> development e \<and> topics e ''TASK'' = Some arn \<and> arn \<noteq> []"
  from t have tt: "topicTypeOf (d_entityType d) = Some ''TASK''"
    by (auto simp: topicTypeOf_def)
  show "map fst (snsCommands (snd (createNotification e uuid ts d w))) = map fst (snsCommands w) @ [arn]"
    using e tt
    by (simp add: createNotification_def publishToSNS_def sendToSQS_def Let_def
        split: option.split prod.split sum.split)
qed

text \<open>
  Claim C7 at the entity type \<open>document\<close>, which is rejected with the clients untouched,
  and at \<open>audio\<close>, which is published to the \<open>TASK\<close> topic.
\<close>

theorem createNotification_routing_witness:
  "Some ''document'' \<notin> set (map Some entityTypes) \<and>
   createNotification prodEnv ''id-1'' ''2024-01-01T00:00:00.000Z'' (uploadData (Some ''document'')) idle =
     (Inl (UnknownEntityType (Some ''document'')), idle) \<and>
   \<not> development prodEnv \<and> topics prodEnv ''TASK'' = Some ''arn:aws:sns:eu-north-1:1:task'' \<and>
   map fst (snsCommands (snd (createNotification prodEnv ''id-1'' ''2024-01-01T00:00:00.000Z''
      (uploadData (Some ''audio'')) idle))) = [''arn:aws:sns:eu-north-1:1:task'']"
proof -
  have a: "d_entityType (uploadData (Some ''document'')) \<notin> set (map Some entityTypes)"
    by (simp add: uploadData_def entityTypes_def)
  have b: "d_entityType (uploadData (Some ''audio'')) = Some ''audio''"
    by (simp add: uploadData_def)
  have c: "\<not> development prodEnv \<and> topics prodEnv ''TASK'' = Some ''arn:aws:sns:eu-north-1:1:task''
      \<and> ''arn:aws:sns:eu-north-1:1:task'' \<noteq> []"
    by (simp add: prodEnv_def)
  show ?thesis
    using a b c
      createNotification_routing [of "uploadData (Some ''document'')" prodEnv "''id-1''"
        "''2024-01-01T00:00:00.000Z''" idle]
      createNotification_routing [of "uploadData (Some ''audio'')" prodEnv "''id-1''"
        "''2024-01-01T00:00:00.000Z''" idle "''arn:aws:sns:eu-north-1:1:task''"]
    by (simp add: uploadData_def idle_def)
qed

section \<open>Statistics\<close>

text \<open>
  Claim C8, as stated, fails: for a recipient with two \<open>file_upload\<close> notifications,
  \<open>byType\<close> holds two entries for \<open>file_upload\<close>, each with count 1, and not one entry with
  count 2.
\<close>

theorem getStats_breakdown_counterexample:
  "map byType (getStats ''doctor1'' twoPhotos) = [[(''file_upload'', 1), (''file_upload'', 1)]] \<and>
   length (filter (\<lambda>n. recipientId n = ''doctor1'' \<and> ntype n = ''file_upload'') twoPhotos) = 2 \<and>
   \<not> list_all (\<lambda>st. perValueBreakdown ntype (filter (\<lambda>n. recipientId n = ''doctor1'') twoPhotos) (byType st))
        (getStats ''doctor1'' twoPhotos)"
  by (simp add: getStats_def twoPhotos_def perValueBreakdown_def ex_defs)

lemma sum_list_ones: "sum_list (map (\<lambda>n. 1) xs) = length xs"
  by (induction xs) auto

lemma sum_list_indicator: "sum_list (map (\<lambda>n. if P n then 1 else 0) xs) = length (filter P xs)"
  by (induction xs) auto

lemma sum_counts: "sum_list (map snd (filter (\<lambda>e. fst e = v) (map (\<lambda>n. (key n, 1)) xs)))
    = length (filter (\<lambda>n. key n = v) xs)"
  by (induction xs) auto

text \<open>
  Claim C8, amended. For a recipient with no notification \<open>getStats\<close> returns no group.
  Otherwise it returns one group: \<open>total\<close> is the number of the recipient's notifications,
  \<open>unread\<close> the number of those with \<open>read\<close> false, and \<open>byType\<close> and \<open>byPriority\<close> hold one
  entry for each notification, in the order of the collection, with the notification's
  type or priority and the count 1; so for each type \<open>t\<close> and each priority \<open>p\<close> the counts
  of the entries with that value add up to the number of the recipient's notifications
  that have it.
\<close>

theorem getStats_counts:
  "getStats rid s =
     (let ms = filter (\<lambda>n. recipientId n = rid) s
      in if ms = [] then []
         else [\<lparr> total = length ms, unread = length (filter (\<lambda>n. read n = False) ms),
                  byType = map (\<lambda>n. (ntype n, 1)) ms,
                  byPriority = map (\<lambda>n. (priority n, 1)) ms \<rparr>]) \<and>
   map (\<lambda>st. sum_list (map snd (filter (\<lambda>e. fst e = t) (byType st)))) (getStats rid s) =
     (let ms = filter (\<lambda>n. recipientId n = rid) s
      in if ms = [] then [] else [length (filter (\<lambda>n. ntype n = t) ms)]) \<and>
   map (\<lambda>st. sum_list (map snd (filter (\<lambda>e. fst e = p) (byPriority st)))) (getStats rid s) =
     (let ms = filter (\<lambda>n. recipientId n = rid) s
      in if ms = [] then [] else [length (filter (\<lambda>n. priority n = p) ms)])"
proof -
  define ms where "ms = filter (\<lambda>n. recipientId n = rid) s"
  have g: "getStats rid s =
      (if ms = [] then []
       else [\<lparr> total = length ms, unread = length (filter (\<lambda>n. read n = False) ms),
                byType = map (\<lambda>n. (ntype n, 1)) ms,
                byPriority = map (\<lambda>n. (priority n, 1)) ms \<rparr>])"
    unfolding getStats_def Let_def ms_def [symmetric]
    by (simp only: sum_list_ones sum_list_indicator)
  have t: "map (\<lambda>st. sum_list (map snd (filter (\<lambda>e. fst e = t) (byType st)))) (getStats rid s) =
      (if ms = [] then [] else [length (filter (\<lambda>n. ntype n = t) ms)])"
    unfolding g by (simp add: sum_counts del: One_nat_def)
  have p: "map (\<lambda>st. sum_list (map snd (filter (\<lambda>e. fst e = p) (byPriority st)))) (getStats rid s) =
      (if ms = [] then [] else [length (filter (\<lambda>n. priority n = p) ms)])"
    unfolding g by (simp add: sum_counts del: One_nat_def)
  from g t p show ?thesis
    unfolding Let_def ms_def by blast
qed

section \<open>The list query of a recipient\<close>

text \<open>
  Claim C9, as stated, fails: with the limit 0 the query does not return at most 0
  notifications; \<open>options.limit || 50\<close> turns 0 into 50, and both notifications of the
  recipient are returned.
\<close>

theorem findByRecipient_limit_zero_counterexample:
  "opt_limit (noOptions\<lparr>opt_limit := Some 0\<rparr>) = Some 0 \<and>
   length (findByRecipient ''doctor1'' (noOptions\<lparr>opt_limit := Some 0\<rparr>) twoUnread) = 2"
  by (simp add: findByRecipient_def cursorLimit_def limitOf_def noOptions_def sortDesc_def
      find_docs_def recipientQuery_def truthy_def ex_defs)

lemma cursorLimit_take:
  assumes "case opt_limit opts of None \<Rightarrow> True | Some l \<Rightarrow> 0 \<le> l"
  shows "cursorLimit (limitOf opts) xs =
           take (case opt_limit opts of None \<Rightarrow> 50 | Some l \<Rightarrow> if l = 0 then 50 else nat l) xs"
  using assms by (auto simp: cursorLimit_def limitOf_def split: option.splits)

text \<open>
  Claim C9, amended. Let the limit be omitted, 0 or positive, and let \<open>k\<close> be 50 when it
  is omitted or 0 and the limit itself otherwise. Then \<open>findByRecipient\<close> returns only
  notifications of the collection that belong to the recipient and match every filter
  that is supplied, where a \<open>type\<close> or \<open>priority\<close> given as the empty string counts as not
  supplied; the result is in descending order of \<open>createdAt\<close>; it has \<open>k\<close> elements, or all
  the matching ones when there are fewer; and it is the first \<open>k\<close> of an arrangement of all
  the matching notifications in descending order of \<open>createdAt\<close>.
\<close>

theorem findByRecipient_filters_order_limit:
  assumes "case opt_limit opts of None \<Rightarrow> True | Some l \<Rightarrow> 0 \<le> l"
  shows "let r = findByRecipient rid opts s;
             ms = filter (recipientQuery rid opts) s;
             k = (case opt_limit opts of None \<Rightarrow> 50 | Some l \<Rightarrow> if l = 0 then 50 else nat l)
         in list_all (\<lambda>n. n \<in> set s \<and> recipientId n = rid \<and>
                 (truthy (opt_type opts) \<longrightarrow> Some (ntype n) = opt_type opts) \<and>
                 (opt_read opts \<noteq> None \<longrightarrow> Some (read n) = opt_read opts) \<and>
                 (truthy (opt_priority opts) \<longrightarrow> Some (priority n) = opt_priority opts)) r \<and>
            sorted_wrt (\<lambda>a b. createdAt b \<le> createdAt a) r \<and>
            length r = min k (length ms) \<and>
            (\<exists>xs. mset xs = mset ms \<and> sorted_wrt (\<lambda>a b. createdAt b \<le> createdAt a) xs \<and>
                  r = take k xs)"
proof -
  define ms where "ms = filter (recipientQuery rid opts) s"
  define k where "k = (case opt_limit opts of None \<Rightarrow> 50 | Some l \<Rightarrow> if l = 0 then 50 else nat l)"
  define xs where "xs = sortDesc createdAt ms"
  have r: "findByRecipient rid opts s = take k xs"
    unfolding findByRecipient_def find_docs_def xs_def ms_def k_def
    by (rule cursorLimit_take [OF assms])
  have srt: "sorted_wrt (\<lambda>a b. createdAt b \<le> createdAt a) xs"
    unfolding xs_def by (rule sorted_sortDesc)
  have "set (take k xs) \<subseteq> set ms"
    using set_take_subset [of k xs] by (simp add: xs_def set_sortDesc)
  then have a: "list_all (\<lambda>n. n \<in> set s \<and> recipientId n = rid \<and>
                 (truthy (opt_type opts) \<longrightarrow> Some (ntype n) = opt_type opts) \<and>
                 (opt_read opts \<noteq> None \<longrightarrow> Some (read n) = opt_read opts) \<and>
                 (truthy (opt_priority opts) \<longrightarrow> Some (priority n) = opt_priority opts)) (take k xs)"
    by (auto simp: list_all_iff ms_def recipientQuery_def split: if_splits option.splits)
  have b: "sorted_wrt (\<lambda>a b. createdAt b \<le> createdAt a) (take k xs)"
    using srt by (rule sorted_wrt_take)
  have c: "length (take k xs) = min k (length ms)"
    by (simp add: xs_def length_sortDesc min.commute)
  have d: "\<exists>ys. mset ys = mset ms \<and> sorted_wrt (\<lambda>a b. createdAt b \<le> createdAt a) ys \<and>
                  take k xs = take k ys"
    using srt mset_sortDesc [of createdAt ms] unfolding xs_def by blast
  from a b c d show ?thesis
    unfolding Let_def r ms_def [symmetric] k_def [symmetric] by blast
qed

text \<open>
  Claim C9, amended, for the unread \<open>task_assigned\<close> notifications of \<open>doctor1\<close> with the
  limit 1.
\<close>

theorem findByRecipient_filters_order_limit_witness:
  "(case opt_limit unreadTasks of None \<Rightarrow> True | Some l \<Rightarrow> 0 \<le> l) \<and>
   map nid twoUnread = [1, 2] \<and>
   map nid (findByRecipient ''doctor1'' unreadTasks twoUnread) = [1] \<and>
   length (findByRecipient ''doctor1'' unreadTasks twoUnread) =
     min 1 (length (filter (recipientQuery ''doctor1'' unreadTasks) twoUnread))"
proof -
  have h: "case opt_limit unreadTasks of None \<Rightarrow> True | Some l \<Rightarrow> 0 \<le> l"
    by (simp add: unreadTasks_def)
  have v: "map nid twoUnread = [1, 2] \<and> map nid (findByRecipient ''doctor1'' unreadTasks twoUnread) = [1]"
    by code_simp
  have k: "(case opt_limit unreadTasks of None \<Rightarrow> 50 | Some l \<Rightarrow> if l = 0 then 50 else nat l) = 1"
    by (simp add: unreadTasks_def)
  show ?thesis
    using h v findByRecipient_filters_order_limit [OF h, of "''doctor1''" twoUnread]
    unfolding Let_def k by blast
qed

section \<open>Expired notifications in the list query\<close>





end
